theory Spec2Isabelle
  imports Main
begin

section \<open>The engine composable (useCoveoEngine)\<close>

text \<open>
  The composable keeps one module-level variable, \<open>engineInstance\<close>, and writes to the
  browser console. Both are made explicit as a state record that every call receives and
  returns. The library function \<open>buildSearchEngine\<close> is a parameter: it either throws
  (\<open>Some message\<close>) or succeeds (\<open>None\<close>), in which case a fresh engine object is
  allocated; the object's identity is its allocation number.
\<close>

record CoveoEngineOptions =
  searchHub :: "string option"
  pipeline :: "string option"

record RuntimeConfig =
  isClient :: bool
  coveoOrganizationId :: "string option"
  coveoApiKey :: "string option"
  windowLocationHref :: "string option"

record SearchEngineConfiguration =
  organizationId :: string
  accessToken :: string
  analyticsEnabled :: bool
  originContext :: string
  originLevel2 :: string
  originLevel3 :: string
  searchSearchHub :: string
  searchPipeline :: "string option"

datatype SearchEngine =
  SearchEngine (engineId: nat) (configuration: SearchEngineConfiguration)

datatype ConsoleEntry =
  ConsoleWarn string
  | ConsoleError string
  | ConsoleLog string "string list"

record ModuleState =
  engineInstance :: "SearchEngine option"
  console :: "ConsoleEntry list"
  enginesBuilt :: nat

text \<open>
  JavaScript truthiness of a \<open>string | undefined\<close>: \<open>undefined\<close> and the empty string
  are falsy. \<open>truthyString v\<close> is the string when it is truthy.
\<close>

definition truthyString :: "string option \<Rightarrow> string option" where
  "truthyString v = (case v of None \<Rightarrow> None | Some s \<Rightarrow> if s = [] then None else Some s)"

definition orDefault :: "string option \<Rightarrow> string \<Rightarrow> string" where
  "orDefault v d = (case truthyString v of None \<Rightarrow> d | Some s \<Rightarrow> s)"

text \<open>
  The text of the warning. The warning sign at its start (U+26A0 U+FE0F) is written as its
  UTF-8 bytes, and each line break as the character 10.
\<close>

definition credentialsWarning :: string where
  "credentialsWarning =
     [CHR 0xE2, CHR 0x9A, CHR 0xA0, CHR 0xEF, CHR 0xB8, CHR 0x8F] @
     '' Coveo credentials not configured!'' @ [CHR 0x0A] @
     ''Set COVEO_ORGANIZATION_ID and COVEO_API_KEY environment variables.'' @ [CHR 0x0A] @
     ''See: https://docs.coveo.com/en/1718/manage-an-organization/manage-api-keys''"

definition engineConfig ::
  "RuntimeConfig \<Rightarrow> CoveoEngineOptions \<Rightarrow> string \<Rightarrow> string \<Rightarrow> SearchEngineConfiguration" where
  "engineConfig rt options org key =
     \<lparr> organizationId = org,
       accessToken = key,
       analyticsEnabled = True,
       originContext = ''Search'',
       originLevel2 = orDefault (searchHub options) ''NuxtDemo'',
       originLevel3 = (case windowLocationHref rt of None \<Rightarrow> ''default'' | Some href \<Rightarrow> href),
       searchSearchHub = orDefault (searchHub options) ''NuxtDemo'',
       searchPipeline = pipeline options \<rparr>"

definition initEngine ::
  "RuntimeConfig \<Rightarrow> (SearchEngineConfiguration \<Rightarrow> string option) \<Rightarrow> CoveoEngineOptions
     \<Rightarrow> ModuleState \<Rightarrow> SearchEngine option \<times> ModuleState" where
  "initEngine rt buildSearchEngine options st =
     (if \<not> isClient rt then (None, st)
      else case engineInstance st of
        Some e \<Rightarrow> (Some e, st)
      | None \<Rightarrow>
         (case truthyString (coveoOrganizationId rt) of
            None \<Rightarrow> (None, st\<lparr>console := console st @ [ConsoleWarn credentialsWarning]\<rparr>)
          | Some org \<Rightarrow>
             (case truthyString (coveoApiKey rt) of
                None \<Rightarrow> (None, st\<lparr>console := console st @ [ConsoleWarn credentialsWarning]\<rparr>)
              | Some key \<Rightarrow>
                 (case buildSearchEngine (engineConfig rt options org key) of
                    None \<Rightarrow>
                      (Some (SearchEngine (enginesBuilt st) (engineConfig rt options org key)),
                       st\<lparr>engineInstance :=
                            Some (SearchEngine (enginesBuilt st) (engineConfig rt options org key)),
                          enginesBuilt := Suc (enginesBuilt st)\<rparr>)
                  | Some err \<Rightarrow>
                      (None,
                       st\<lparr>console := console st @
                            [ConsoleError (''Failed to initialize Coveo engine: '' @ err)]\<rparr>)))))"

record CoveoEngineHandle =
  engine :: "SearchEngine option"
  isReady :: bool

definition useCoveoEngine ::
  "RuntimeConfig \<Rightarrow> (SearchEngineConfiguration \<Rightarrow> string option) \<Rightarrow> CoveoEngineOptions
     \<Rightarrow> ModuleState \<Rightarrow> CoveoEngineHandle \<times> ModuleState" where
  "useCoveoEngine rt buildSearchEngine options st =
     (case initEngine rt buildSearchEngine options st of
        (e, st') \<Rightarrow> (\<lparr> engine = e, isReady = (case e of None \<Rightarrow> False | Some _ \<Rightarrow> True) \<rparr>, st'))"

text \<open>Several calls of the composable in a row, one per element of the list of options.\<close>

fun useCoveoEngine_calls ::
  "RuntimeConfig \<Rightarrow> (SearchEngineConfiguration \<Rightarrow> string option) \<Rightarrow> CoveoEngineOptions list
     \<Rightarrow> ModuleState \<Rightarrow> CoveoEngineHandle list \<times> ModuleState" where
  "useCoveoEngine_calls rt buildSearchEngine [] st = ([], st)"
| "useCoveoEngine_calls rt buildSearchEngine (options # rest) st =
     (case useCoveoEngine rt buildSearchEngine options st of
        (h, st1) \<Rightarrow>
          (case useCoveoEngine_calls rt buildSearchEngine rest st1 of
             (hs, st2) \<Rightarrow> (h # hs, st2)))"

definition freshModule :: ModuleState where
  "freshModule = \<lparr> engineInstance = None, console = [], enginesBuilt = 0 \<rparr>"

definition noOptions :: CoveoEngineOptions where
  "noOptions = \<lparr> searchHub = None, pipeline = None \<rparr>"

definition demoRuntime :: RuntimeConfig where
  "demoRuntime = \<lparr> isClient = True, coveoOrganizationId = Some ''org'',
                    coveoApiKey = Some ''key'', windowLocationHref = None \<rparr>"

definition unconfiguredRuntime :: RuntimeConfig where
  "unconfiguredRuntime = \<lparr> isClient = True, coveoOrganizationId = None,
                            coveoApiKey = Some ''key'', windowLocationHref = None \<rparr>"

definition otherOptions :: CoveoEngineOptions where
  "otherOptions = \<lparr> searchHub = Some ''OtherHub'', pipeline = Some ''other'' \<rparr>"

section \<open>Results: the result card, the result list and click analytics\<close>

text \<open>
  The \<open>Result\<close> type is declared by the library. The fields are the ones the components
  read (\<open>uniqueId\<close>, \<open>title\<close>, \<open>excerpt\<close>, \<open>clickUri\<close>, the raw fields) and the rank of
  the specification's data model. A raw date is a JavaScript number; it is modelled by an
  integer (\<open>None\<close> when the field is absent), on which the comparison with \<open>1e12\<close> and
  the multiplication by 1000 are exact.
\<close>

record RawFields =
  filetype :: "string option"
  source :: "string option"
  author :: "string option"
  date :: "int option"

record Result =
  uniqueId :: string
  title :: string
  excerpt :: string
  clickUri :: string
  rank :: nat
  raw :: RawFields

text \<open>
  \<open>formattedDate\<close> of ResultItem. \<open>toLocaleDateString\<close> stands for
  \<open>new Date(ms).toLocaleDateString('en-US', ...)\<close>, which returns a string for every
  number of milliseconds (the text "Invalid Date" outside the range of dates) and does
  not throw for the fixed locale and options, so the \<open>catch\<close> branch is never taken.
\<close>

definition formattedDate :: "(int \<Rightarrow> string) \<Rightarrow> Result \<Rightarrow> string option" where
  "formattedDate toLocaleDateString result =
     (case date (raw result) of
        None \<Rightarrow> None
      | Some dateValue \<Rightarrow>
          if dateValue = 0 then None
          else Some (toLocaleDateString
                       (if dateValue > 10 ^ 12 then dateValue else dateValue * 1000)))"

text \<open>
  A click inside a result card lands either on the title link or elsewhere on the card.
  The card (\<open>article\<close>) carries \<open>@click="handleClick"\<close>; the title link carries
  \<open>@click.stop\<close>, which stops the event before it reaches the card, and the browser then
  follows the link. \<open>handleClick\<close> emits the component event \<open>click\<close> with the result.
  \<open>ResultItem_click\<close> is the emitted event, if any.
\<close>

datatype ClickTarget = TitleLink | CardBody

definition handleClick :: "Result \<Rightarrow> Result option" where
  "handleClick result = Some result"

definition ResultItem_click :: "ClickTarget \<Rightarrow> Result \<Rightarrow> Result option" where
  "ResultItem_click target result =
     (case target of TitleLink \<Rightarrow> None | CardBody \<Rightarrow> handleClick result)"

text \<open>
  What a click handler can change outside the component: the actions dispatched to the
  engine and the browser console.
\<close>

datatype AnalyticsAction = LogDocumentOpen Result

record Client =
  dispatched :: "AnalyticsAction list"
  clientConsole :: "ConsoleEntry list"

definition logDocumentClick :: "SearchEngine option \<Rightarrow> Result \<Rightarrow> Client \<Rightarrow> Client" where
  "logDocumentClick eng result c =
     (case eng of
        None \<Rightarrow> c
      | Some e \<Rightarrow>
          c\<lparr>dispatched := dispatched c @ [LogDocumentOpen result],
            clientConsole := clientConsole c @
              [ConsoleLog ([CHR 0xF0, CHR 0x9F, CHR 0x93, CHR 0x8A] @
                            '' Analytics: Document click logged'')
                 [title result, clickUri result, uniqueId result]]\<rparr>)"

definition trackClick :: "SearchEngine option \<Rightarrow> Result \<Rightarrow> Client \<Rightarrow> Client" where
  "trackClick eng result c = logDocumentClick eng result c"

text \<open>A user click on a result of the list: the card's event, then the list's handler.\<close>

definition ResultList_click ::
  "SearchEngine option \<Rightarrow> ClickTarget \<Rightarrow> Result \<Rightarrow> Client \<Rightarrow> Client" where
  "ResultList_click eng target result c =
     (case ResultItem_click target result of
        None \<Rightarrow> c
      | Some r \<Rightarrow> trackClick eng r c)"

definition demoResult :: Result where
  "demoResult = \<lparr> uniqueId = ''doc-42'', title = ''Coffee guide'', excerpt = ''All about coffee'',
                  clickUri = ''https://example.com/coffee'', rank = 0,
                  raw = \<lparr> filetype = Some ''html'', source = None, author = None,
                          date = Some 1700000000 \<rparr> \<rparr>"

definition demoEngine :: SearchEngine where
  "demoEngine = SearchEngine 0 (engineConfig demoRuntime noOptions ''org'' ''key'')"

definition emptyClient :: Client where
  "emptyClient = \<lparr> dispatched = [], clientConsole = [] \<rparr>"

definition demoDateFormat :: "int \<Rightarrow> string" where
  "demoDateFormat ms = (if ms = 1700000000000 then ''Nov 14, 2023'' else ''another day'')"

section \<open>The state container\<close>

text \<open>
  Modelled from the spec: the canonical state, the actions and the responses of the
  state container (sections 3 and 4.1). The repository's files only call the library's
  engine and controllers; the container itself is not among them. The sort criteria are
  the three the sort dropdown offers. The record also holds the recent-queries list with
  its cap and the log of transport calls, which section 4.1 describes as effects of the
  reducer.
\<close>

text \<open>Modelled from the spec: the failure taxonomy of the transport (sections 6 and 7).\<close>

datatype ErrorKind = NetworkError | AuthError | ServerError

text \<open>
  Modelled from the spec: the sort criterion of the canonical state; the values are the
  three criteria of the sort dropdown.
\<close>

datatype SortCriterion = Relevance | DateDescending | DateAscending

text \<open>
  Modelled from the spec: a facet value with its count (section 3); its displayed state
  is derived from the selection and is not stored.
\<close>

record FacetValueCount =
  facetValue :: string
  facetCount :: nat

text \<open>Modelled from the spec: the Correction of section 3.\<close>

record Correction =
  correctedQuery :: string
  wasAutomaticallyApplied :: bool
  originalQuery :: string

text \<open>Modelled from the spec: the Response of section 3.\<close>

record Response =
  results :: "Result list"
  totalCount :: int
  facetCounts :: "(string \<times> FacetValueCount list) list"
  correction :: "Correction option"
  durationMs :: int
  responseId :: string

text \<open>
  Modelled from the spec: the request snapshot of the transport contract (section 6),
  with the sequence number of the request.
\<close>

record Request =
  reqSequence :: nat
  reqQueryText :: string
  reqSelectedFacets :: "string \<Rightarrow> string set"
  reqSortCriterion :: SortCriterion
  reqPageIndex :: int
  reqPageSize :: int

text \<open>
  Modelled from the spec: the canonical state of section 3, with the recent-queries list,
  its cap and the log of transport calls.
\<close>

record Engine =
  queryText :: string
  selectedFacets :: "string \<Rightarrow> string set"
  sortCriterion :: SortCriterion
  pageIndex :: int
  pageSize :: int
  lastResponse :: "Response option"
  requestSequence :: nat
  pendingRequestId :: "nat option"
  lastError :: "ErrorKind option"
  recentQueries :: "string list"
  recentQueriesCap :: nat
  transportCalls :: "Request list"

text \<open>Modelled from the spec: the actions of section 3.\<close>

datatype Action =
  SetQueryText string
  | SubmitQuery
  | ToggleFacetValue string string
  | ClearFacet string
  | SetSortCriterion SortCriterion
  | SetPage int
  | ApplyCorrection
  | ResponseArrived nat Response
  | RequestFailed nat ErrorKind

text \<open>
  Modelled from the spec: "for any action flagged triggers refetch, increment
  requestSequence, set pendingRequestId to the new sequence value, and invoke the
  Transport Client with a request snapshot built from the current canonical state"
  (section 4.1). The call is recorded in \<open>transportCalls\<close>.
\<close>

definition triggerRefetch :: "Engine \<Rightarrow> Engine" where
  "triggerRefetch s =
     s\<lparr>requestSequence := Suc (requestSequence s),
       pendingRequestId := Some (Suc (requestSequence s)),
       transportCalls := transportCalls s @
         [\<lparr> reqSequence = Suc (requestSequence s),
            reqQueryText = queryText s,
            reqSelectedFacets = selectedFacets s,
            reqSortCriterion = sortCriterion s,
            reqPageIndex = pageIndex s,
            reqPageSize = pageSize s \<rparr>]\<rparr>"

text \<open>
  Modelled from the spec: the bounded recent-queries list of section 4.1, "capped
  length, most-recent-first, de-duplicated by exact text". The cap is a parameter of the
  engine; the spec gives no number.
\<close>

definition pushRecentQuery :: "nat \<Rightarrow> string \<Rightarrow> string list \<Rightarrow> string list" where
  "pushRecentQuery cap q qs = take cap (q # filter (\<lambda>x. x \<noteq> q) qs)"

text \<open>Modelled from the spec: the correction carried by the last response, if any.\<close>

definition pendingCorrection :: "Engine \<Rightarrow> Correction option" where
  "pendingCorrection s = (case lastResponse s of None \<Rightarrow> None | Some r \<Rightarrow> correction r)"

text \<open>
  Modelled from the spec: the reducer step of \<open>dispatch\<close> (sections 3, 4.1, 4.2 and 8).
  SetQueryText does not refetch. SubmitQuery resets the page, records the query and
  refetches. ToggleFacetValue toggles membership, resets the page and refetches.
  ClearFacet refetches if the selection was non-empty. SetSortCriterion resets the page
  and refetches. SetPage sets the page and refetches. ApplyCorrection replaces the query
  text by the pending correction's text and refetches, and does nothing without one.
  ResponseArrived and RequestFailed are merged only under the sequence guard; a failure
  sets \<open>lastError\<close> and leaves \<open>lastResponse\<close> untouched. The spec does not say what a
  merged response does to \<open>lastError\<close>; it is left as it was.
\<close>

fun reducer :: "Action \<Rightarrow> Engine \<Rightarrow> Engine" where
  "reducer (SetQueryText t) s = s\<lparr>queryText := t\<rparr>"
| "reducer SubmitQuery s =
     triggerRefetch
       (s\<lparr>pageIndex := 0,
          recentQueries := pushRecentQuery (recentQueriesCap s) (queryText s) (recentQueries s)\<rparr>)"
| "reducer (ToggleFacetValue field v) s =
     triggerRefetch
       (s\<lparr>selectedFacets := (selectedFacets s)
            (field := (if v \<in> selectedFacets s field
                       then selectedFacets s field - {v}
                       else insert v (selectedFacets s field))),
          pageIndex := 0\<rparr>)"
| "reducer (ClearFacet field) s =
     (if selectedFacets s field = {} then s
      else triggerRefetch (s\<lparr>selectedFacets := (selectedFacets s)(field := {})\<rparr>))"
| "reducer (SetSortCriterion c) s = triggerRefetch (s\<lparr>sortCriterion := c, pageIndex := 0\<rparr>)"
| "reducer (SetPage n) s = triggerRefetch (s\<lparr>pageIndex := n\<rparr>)"
| "reducer ApplyCorrection s =
     (case pendingCorrection s of
        None \<Rightarrow> s
      | Some c \<Rightarrow> triggerRefetch (s\<lparr>queryText := correctedQuery c\<rparr>))"
| "reducer (ResponseArrived k r) s =
     (if pendingRequestId s = Some k
      then s\<lparr>lastResponse := Some r, pendingRequestId := None\<rparr>
      else s)"
| "reducer (RequestFailed k e) s =
     (if pendingRequestId s = Some k
      then s\<lparr>lastError := Some e, pendingRequestId := None\<rparr>
      else s)"

text \<open>
  Modelled from the spec: \<open>getState()\<close> after a sequence of dispatched actions is the
  left fold of the reducer over them (section 8).
\<close>

fun dispatchAll :: "Action list \<Rightarrow> Engine \<Rightarrow> Engine" where
  "dispatchAll [] s = s"
| "dispatchAll (a # as) s = dispatchAll as (reducer a s)"

text \<open>Modelled from the spec: an action triggered a request when the sequence number moved.\<close>

definition triggered :: "Action \<Rightarrow> Engine \<Rightarrow> bool" where
  "triggered a s = (requestSequence s < requestSequence (reducer a s))"

text \<open>Modelled from the spec: the state of a newly constructed engine.\<close>

definition initialEngine :: "nat \<Rightarrow> int \<Rightarrow> Engine" where
  "initialEngine cap perPage =
     \<lparr> queryText = [], selectedFacets = (\<lambda>field. {}), sortCriterion = Relevance,
       pageIndex = 0, pageSize = perPage, lastResponse = None, requestSequence = 0,
       pendingRequestId = None, lastError = None, recentQueries = [],
       recentQueriesCap = cap, transportCalls = [] \<rparr>"

section \<open>The controllers\<close>

text \<open>
  Modelled from the spec: the Pager controller of section 4.2. The number of pages is
  \<open>ceil(totalCount / pageSize)\<close> (written with the floor division of the integers, for
  a positive page size); page numbers are clamped to \<open>[0, ceil(totalCount/pageSize) - 1]\<close>;
  nextPage and previousPage dispatch nothing when the clamped target is the current page.
\<close>

definition pageCount :: "Engine \<Rightarrow> int" where
  "pageCount s =
     (case lastResponse s of None \<Rightarrow> 0 | Some r \<Rightarrow> - ((- totalCount r) div pageSize s))"

text \<open>Modelled from the spec: the index of the last page, \<open>ceil(totalCount/pageSize) - 1\<close>, at least 0.\<close>

definition lastPageIndex :: "Engine \<Rightarrow> int" where
  "lastPageIndex s = max 0 (pageCount s - 1)"

text \<open>Modelled from the spec: clamping a page number to \<open>[0, ceil(totalCount/pageSize) - 1]\<close>.\<close>

definition clampPage :: "Engine \<Rightarrow> int \<Rightarrow> int" where
  "clampPage s n = max 0 (min n (pageCount s - 1))"

text \<open>Modelled from the spec: \<open>nextPage()\<close>, a no-op when the clamped target is the current page.\<close>

definition Pager_nextPage :: "Engine \<Rightarrow> Engine" where
  "Pager_nextPage s =
     (if clampPage s (pageIndex s + 1) = pageIndex s then s
      else reducer (SetPage (clampPage s (pageIndex s + 1))) s)"

text \<open>Modelled from the spec: \<open>previousPage()\<close>, a no-op when the clamped target is the current page.\<close>

definition Pager_previousPage :: "Engine \<Rightarrow> Engine" where
  "Pager_previousPage s =
     (if clampPage s (pageIndex s - 1) = pageIndex s then s
      else reducer (SetPage (clampPage s (pageIndex s - 1))) s)"

text \<open>Modelled from the spec: DidYouMean \<open>applyCorrection()\<close> dispatches ApplyCorrection.\<close>

definition DidYouMean_applyCorrection :: "Engine \<Rightarrow> Engine" where
  "DidYouMean_applyCorrection s = reducer ApplyCorrection s"

section \<open>The components\<close>

text \<open>
  A component creates its controller once; the controller is null when the engine is
  null. In the handlers below the controller is the engine state it is bound to, or
  \<open>None\<close>. The component's refs are a record; the subscription callback overwrites them
  with the fields of the controller's state read at that moment.
\<close>

record PagerState =
  currentPage :: int
  currentPages :: "int list"
  hasNextPage :: bool
  hasPreviousPage :: bool
  maxPage :: int

definition Pager_setup :: PagerState where
  "Pager_setup = \<lparr> currentPage = 1, currentPages = [], hasNextPage = False,
                    hasPreviousPage = False, maxPage = 1 \<rparr>"


definition goToNext :: "Engine option \<Rightarrow> PagerState \<Rightarrow> Engine option" where
  "goToNext pager refs =
     (case pager of
        None \<Rightarrow> None
      | Some s \<Rightarrow> if hasNextPage refs then Some (Pager_nextPage s) else Some s)"

definition goToPrevious :: "Engine option \<Rightarrow> PagerState \<Rightarrow> Engine option" where
  "goToPrevious pager refs =
     (case pager of
        None \<Rightarrow> None
      | Some s \<Rightarrow> if hasPreviousPage refs then Some (Pager_previousPage s) else Some s)"

datatype FacetValueState = idle | selected | excluded

record FacetValue =
  valueText :: string
  numberOfResults :: nat
  valueState :: FacetValueState


record FacetRefs =
  valuesRef :: "FacetValue list"
  isExpanded :: bool
  canShowMore :: bool
  canShowLess :: bool

definition Facet_setup :: FacetRefs where
  "Facet_setup = \<lparr> valuesRef = [], isExpanded = True, canShowMore = False,
                    canShowLess = False \<rparr>"


text \<open>
  The SearchBox component. Its controller's state has the query text and the suggestions.
  The refs are the text of the input (bound by \<open>v-model\<close>), the suggestions, whether the
  dropdown shows, and the highlighted index. The callback copies the suggestions only.
\<close>

record Suggestion =
  rawValue :: string
  highlightedValue :: string










record QuerySummaryRefs =
  totalResultsRef :: int
  firstResultRef :: int
  lastResultRef :: int
  summaryQueryRef :: string
  durationInMillisecondsRef :: int
  hasResultsRef :: bool

definition QuerySummary_setup :: QuerySummaryRefs where
  "QuerySummary_setup = \<lparr> totalResultsRef = 0, firstResultRef = 0, lastResultRef = 0,
                           summaryQueryRef = [], durationInMillisecondsRef = 0,
                           hasResultsRef = False \<rparr>"



record ResultListRefs =
  resultsRef :: "Result list"
  isLoadingRef :: bool
  hasSearchedRef :: bool

definition ResultList_setup :: ResultListRefs where
  "ResultList_setup = \<lparr> resultsRef = [], isLoadingRef = False, hasSearchedRef = False \<rparr>"


section \<open>Controllers and components on one page\<close>












text \<open>The two handlers of the DidYouMean component; the body of the second is empty.\<close>

definition applyCorrection :: "Engine option \<Rightarrow> Engine option" where
  "applyCorrection didYouMean =
     (case didYouMean of None \<Rightarrow> None | Some s \<Rightarrow> Some (DidYouMean_applyCorrection s))"

definition searchOriginal :: "Engine option \<Rightarrow> Engine option" where
  "searchOriginal didYouMean = (case didYouMean of None \<Rightarrow> None | Some s \<Rightarrow> Some s)"


definition SortDropdown_setup :: string where
  "SortDropdown_setup = ''relevance''"


section \<open>Sample sessions\<close>

definition demoResponseA :: Response where
  "demoResponseA =
     \<lparr> results = [demoResult], totalCount = 25, facetCounts = [],
       correction = Some \<lparr> correctedQuery = ''coffee'', wasAutomaticallyApplied = False,
                           originalQuery = ''cofee'' \<rparr>,
       durationMs = 12, responseId = ''response-A'' \<rparr>"

definition demoResponseB :: Response where
  "demoResponseB =
     \<lparr> results = [], totalCount = 0, facetCounts = [], correction = None,
       durationMs = 7, responseId = ''response-B'' \<rparr>"

definition twoRequests :: Engine where
  "twoRequests =
     reducer SubmitQuery
       (dispatchAll [SetQueryText ''tea''] (reducer SubmitQuery (initialEngine 5 10)))"

definition recentSession :: Engine where
  "recentSession =
     dispatchAll
       [SetQueryText ''tea'', SubmitQuery, SetQueryText ''coffee'', SubmitQuery,
        SetPage 3, SetQueryText ''tea'']
       (initialEngine 2 10)"

definition lastPageSession :: Engine where
  "lastPageSession =
     dispatchAll
       [SubmitQuery, ResponseArrived 1 demoResponseA, SetPage 2, ResponseArrived 2 demoResponseA]
       (initialEngine 5 10)"

definition correctionSession :: Engine where
  "correctionSession =
     dispatchAll [SetQueryText ''cofee'', SubmitQuery, ResponseArrived 1 demoResponseA]
       (initialEngine 5 10)"




definition staleRefs :: PagerState where
  "staleRefs = \<lparr> currentPage = 1, currentPages = [1, 2, 3], hasNextPage = True,
                  hasPreviousPage = True, maxPage = 3 \<rparr>"

section \<open>Properties of the engine composable\<close>

lemma initEngine_result_stored:
  assumes "initEngine rt b options st = (Some e, st')"
  shows "isClient rt \<and> engineInstance st' = Some e"
  using assms
  by (auto simp: initEngine_def split: if_splits option.splits)

lemma initEngine_existing:
  assumes "isClient rt" and "engineInstance st = Some e"
  shows "initEngine rt b options st = (Some e, st)"
  using assms by (simp add: initEngine_def)

lemma useCoveoEngine_existing:
  assumes "isClient rt" and "engineInstance st = Some e"
  shows "useCoveoEngine rt b options st = (\<lparr> engine = Some e, isReady = True \<rparr>, st)"
  using assms by (simp add: useCoveoEngine_def initEngine_existing)

lemma useCoveoEngine_calls_existing:
  assumes "isClient rt" and "engineInstance st = Some e"
  shows "useCoveoEngine_calls rt b optss st =
           (replicate (length optss) \<lparr> engine = Some e, isReady = True \<rparr>, st)"
  using assms
  by (induction optss) (simp_all add: useCoveoEngine_existing)

lemma initEngine_missing_credentials:
  assumes "isClient rt" and "engineInstance st = None"
    and "truthyString (coveoOrganizationId rt) = None \<or> truthyString (coveoApiKey rt) = None"
  shows "initEngine rt b options st =
           (None, st\<lparr>console := console st @ [ConsoleWarn credentialsWarning]\<rparr>)"
  using assms by (auto simp: initEngine_def split: option.splits)

lemma useCoveoEngine_missing_credentials:
  assumes "isClient rt" and "engineInstance st = None"
    and "truthyString (coveoOrganizationId rt) = None \<or> truthyString (coveoApiKey rt) = None"
  shows "useCoveoEngine rt b options st =
           (\<lparr> engine = None, isReady = False \<rparr>,
            st\<lparr>console := console st @ [ConsoleWarn credentialsWarning]\<rparr>)"
  using assms by (simp add: useCoveoEngine_def initEngine_missing_credentials)

lemma useCoveoEngine_calls_missing_credentials:
  assumes "isClient rt" and "engineInstance st = None"
    and "truthyString (coveoOrganizationId rt) = None \<or> truthyString (coveoApiKey rt) = None"
  shows "useCoveoEngine_calls rt b optss st =
           (replicate (length optss) \<lparr> engine = None, isReady = False \<rparr>,
            st\<lparr>console := console st @ replicate (length optss) (ConsoleWarn credentialsWarning)\<rparr>)"
  using assms
proof (induction optss arbitrary: st)
  case Nil
  then show ?case by simp
next
  case (Cons options rest)
  let ?st1 = "st\<lparr>console := console st @ [ConsoleWarn credentialsWarning]\<rparr>"
  have step: "useCoveoEngine rt b options st = (\<lparr> engine = None, isReady = False \<rparr>, ?st1)"
    using Cons.prems by (rule useCoveoEngine_missing_credentials)
  have inst: "engineInstance ?st1 = None"
    using Cons.prems(2) by simp
  have rest: "useCoveoEngine_calls rt b rest ?st1 =
      (replicate (length rest) \<lparr> engine = None, isReady = False \<rparr>,
       ?st1\<lparr>console := console ?st1 @ replicate (length rest) (ConsoleWarn credentialsWarning)\<rparr>)"
    using Cons.IH [OF Cons.prems(1) inst Cons.prems(3)] .
  show ?case
    by (simp add: step rest replicate_app_Cons_same)
qed

text \<open>
  C9. Within one client session, once a call of useCoveoEngine has returned an engine,
  every later call returns that same engine object and leaves the module state as it is,
  whatever options (searchHub, pipeline) the later call passes and whatever
  buildSearchEngine would do: the stored instance, and so its configuration, is the one
  of the first successful call.
\<close>

theorem useCoveoEngine_idempotent:
  assumes "useCoveoEngine rt b options st = (h, st1)" and "engine h = Some e"
  shows "useCoveoEngine rt b' options' st1 = (\<lparr> engine = Some e, isReady = True \<rparr>, st1)
       \<and> useCoveoEngine_calls rt b' optss st1 =
           (replicate (length optss) \<lparr> engine = Some e, isReady = True \<rparr>, st1)
       \<and> engineInstance st1 = Some e"
proof -
  have "initEngine rt b options st = (Some e, st1)"
    using assms by (auto simp: useCoveoEngine_def split: prod.splits)
  then have stored: "isClient rt \<and> engineInstance st1 = Some e"
    by (rule initEngine_result_stored)
  then show ?thesis
    by (simp add: useCoveoEngine_existing useCoveoEngine_calls_existing)
qed

theorem useCoveoEngine_idempotent_witness:
  "useCoveoEngine demoRuntime (\<lambda>cfg. None) noOptions freshModule =
     (\<lparr> engine = Some demoEngine, isReady = True \<rparr>,
      \<lparr> engineInstance = Some demoEngine, console = [], enginesBuilt = 1 \<rparr>)
   \<and> useCoveoEngine demoRuntime (\<lambda>cfg. Some ''refused'') otherOptions
       \<lparr> engineInstance = Some demoEngine, console = [], enginesBuilt = 1 \<rparr> =
     (\<lparr> engine = Some demoEngine, isReady = True \<rparr>,
      \<lparr> engineInstance = Some demoEngine, console = [], enginesBuilt = 1 \<rparr>)
   \<and> searchSearchHub (configuration demoEngine) = ''NuxtDemo''"
proof -
  let ?st1 = "\<lparr> engineInstance = Some demoEngine, console = [], enginesBuilt = 1 \<rparr>"
  have first: "useCoveoEngine demoRuntime (\<lambda>cfg. None) noOptions freshModule =
      (\<lparr> engine = Some demoEngine, isReady = True \<rparr>, ?st1)"
    by (simp add: useCoveoEngine_def initEngine_def demoRuntime_def freshModule_def
        truthyString_def demoEngine_def)
  have got: "engine \<lparr> engine = Some demoEngine, isReady = True \<rparr> = Some demoEngine"
    by simp
  have hub: "searchSearchHub (configuration demoEngine) = ''NuxtDemo''"
    by (simp add: demoEngine_def engineConfig_def noOptions_def orDefault_def truthyString_def)
  show ?thesis
    using first hub
      useCoveoEngine_idempotent [OF first got, of "\<lambda>cfg. Some ''refused''" otherOptions "[]"]
    by simp
qed

text \<open>
  C2 as stated puts the report of missing credentials at exactly once. The composable
  stores nothing after a failed attempt, so the next call validates again and warns
  again: two calls leave two warnings on the console.
\<close>

theorem missing_credentials_reported_again:
  "console (snd (useCoveoEngine_calls unconfiguredRuntime (\<lambda>cfg. None) [noOptions, noOptions]
                   freshModule)) =
     [ConsoleWarn credentialsWarning, ConsoleWarn credentialsWarning]"
  by (simp add: useCoveoEngine_def initEngine_def unconfiguredRuntime_def freshModule_def
      truthyString_def)

text \<open>
  C2, amended. On the client, with no engine stored and the organization id or the API key
  missing (undefined or empty), a call of useCoveoEngine returns a null engine that is
  not ready, stores no instance, does not call buildSearchEngine, and writes exactly one
  warning to the console; the same holds for each of any number of calls in a row, so
  n calls write n warnings.
\<close>

theorem missing_credentials_null_engine:
  assumes "isClient rt" and "engineInstance st = None"
    and "truthyString (coveoOrganizationId rt) = None \<or> truthyString (coveoApiKey rt) = None"
  shows "useCoveoEngine rt b options st =
           (\<lparr> engine = None, isReady = False \<rparr>,
            st\<lparr>console := console st @ [ConsoleWarn credentialsWarning]\<rparr>)
       \<and> engineInstance (snd (useCoveoEngine rt b options st)) = None
       \<and> enginesBuilt (snd (useCoveoEngine rt b options st)) = enginesBuilt st
       \<and> useCoveoEngine_calls rt b optss st =
           (replicate (length optss) \<lparr> engine = None, isReady = False \<rparr>,
            st\<lparr>console := console st @
                 replicate (length optss) (ConsoleWarn credentialsWarning)\<rparr>)"
  using assms
  by (simp add: useCoveoEngine_missing_credentials useCoveoEngine_calls_missing_credentials)

theorem missing_credentials_null_engine_witness:
  "isClient unconfiguredRuntime \<and> engineInstance freshModule = None
   \<and> truthyString (coveoOrganizationId unconfiguredRuntime) = None
   \<and> useCoveoEngine unconfiguredRuntime (\<lambda>cfg. None) noOptions freshModule =
       (\<lparr> engine = None, isReady = False \<rparr>,
        \<lparr> engineInstance = None, console = [ConsoleWarn credentialsWarning],
          enginesBuilt = 0 \<rparr>)"
proof -
  have c: "isClient unconfiguredRuntime"
    by (simp add: unconfiguredRuntime_def)
  have i: "engineInstance freshModule = None"
    by (simp add: freshModule_def)
  have m: "truthyString (coveoOrganizationId unconfiguredRuntime) = None"
    by (simp add: unconfiguredRuntime_def truthyString_def)
  then have m': "truthyString (coveoOrganizationId unconfiguredRuntime) = None
      \<or> truthyString (coveoApiKey unconfiguredRuntime) = None"
    by simp
  show ?thesis
    using c i m missing_credentials_null_engine [OF c i m', of "\<lambda>cfg. None" noOptions "[]"]
    by (simp add: freshModule_def)
qed

section \<open>Properties of the state container\<close>

lemma reducer_sequence_step:
  "requestSequence (reducer a s) = requestSequence s
   \<or> (requestSequence (reducer a s) = Suc (requestSequence s)
      \<and> pendingRequestId (reducer a s) = Some (Suc (requestSequence s)))"
  by (cases a) (simp_all add: triggerRefetch_def split: option.split)

lemma reducer_sequence_mono: "requestSequence s \<le> requestSequence (reducer a s)"
  using reducer_sequence_step [of a s] by auto

lemma dispatchAll_sequence_mono: "requestSequence s \<le> requestSequence (dispatchAll acts s)"
proof (induction acts arbitrary: s)
  case Nil
  then show ?case by simp
next
  case (Cons a acts)
  have "requestSequence s \<le> requestSequence (reducer a s)"
    by (rule reducer_sequence_mono)
  also have "\<dots> \<le> requestSequence (dispatchAll acts (reducer a s))"
    by (rule Cons.IH)
  finally show ?case by simp
qed

lemma triggered_pending:
  assumes "triggered a s"
  shows "requestSequence (reducer a s) = Suc (requestSequence s)
       \<and> pendingRequestId (reducer a s) = Some (requestSequence (reducer a s))"
  using assms reducer_sequence_step [of a s] by (auto simp: triggered_def)

text \<open>A sequence number is superseded when it has been issued and is not the pending one.\<close>

lemma superseded_reducer:
  assumes "k \<le> requestSequence s" and "pendingRequestId s \<noteq> Some k"
  shows "k \<le> requestSequence (reducer a s) \<and> pendingRequestId (reducer a s) \<noteq> Some k"
  using assms
  by (cases a) (auto simp: triggerRefetch_def split: option.split)

lemma dispatchAll_append:
  "dispatchAll (xs @ ys) s = dispatchAll ys (dispatchAll xs s)"
  by (induction xs arbitrary: s) simp_all

lemma superseded_dispatchAll:
  assumes "k \<le> requestSequence s" and "pendingRequestId s \<noteq> Some k"
  shows "k \<le> requestSequence (dispatchAll acts s)
       \<and> pendingRequestId (dispatchAll acts s) \<noteq> Some k"
  using assms
proof (induction acts arbitrary: s)
  case Nil
  then show ?case by simp
next
  case (Cons a acts)
  have "k \<le> requestSequence (reducer a s) \<and> pendingRequestId (reducer a s) \<noteq> Some k"
    using Cons.prems by (rule superseded_reducer)
  then show ?case
    using Cons.IH by simp
qed

lemma stale_arrival_dropped:
  assumes "k \<le> requestSequence s" and "pendingRequestId s \<noteq> Some k"
  shows "dispatchAll (later @ ResponseArrived k r # rest) s = dispatchAll (later @ rest) s"
    and "dispatchAll (later @ RequestFailed k e # rest) s = dispatchAll (later @ rest) s"
proof -
  have "pendingRequestId (dispatchAll later s) \<noteq> Some k"
    using superseded_dispatchAll [OF assms] by simp
  then show "dispatchAll (later @ ResponseArrived k r # rest) s = dispatchAll (later @ rest) s"
    and "dispatchAll (later @ RequestFailed k e # rest) s = dispatchAll (later @ rest) s"
    by (simp_all add: dispatchAll_append)
qed

text \<open>
  C1. Let action A trigger a request in any state, and let action B trigger a request
  after it, with any actions in between. Then B's sequence number is greater than A's;
  from then on a ResponseArrived or a RequestFailed carrying A's number changes nothing,
  wherever it arrives among later actions: the state is the one reached without it. If
  B's response arrives and then A's, the last response is B's. In every state, a
  ResponseArrived or RequestFailed whose number is not the pending one leaves the state
  as it is.
\<close>

theorem sequence_guard:
  assumes A: "triggered aA s0"
    and B: "triggered aB (dispatchAll between (reducer aA s0))"
  shows "requestSequence (reducer aA s0) <
           requestSequence (reducer aB (dispatchAll between (reducer aA s0)))
       \<and> dispatchAll (later @ ResponseArrived (requestSequence (reducer aA s0)) rA # rest)
           (reducer aB (dispatchAll between (reducer aA s0))) =
         dispatchAll (later @ rest) (reducer aB (dispatchAll between (reducer aA s0)))
       \<and> dispatchAll (later @ RequestFailed (requestSequence (reducer aA s0)) eA # rest)
           (reducer aB (dispatchAll between (reducer aA s0))) =
         dispatchAll (later @ rest) (reducer aB (dispatchAll between (reducer aA s0)))
       \<and> lastResponse
           (dispatchAll
              [ResponseArrived
                 (requestSequence (reducer aB (dispatchAll between (reducer aA s0)))) rB,
               ResponseArrived (requestSequence (reducer aA s0)) rA]
              (reducer aB (dispatchAll between (reducer aA s0)))) = Some rB
       \<and> (pendingRequestId s \<noteq> Some k \<longrightarrow>
            reducer (ResponseArrived k r) s = s \<and> reducer (RequestFailed k e) s = s)"
proof -
  let ?sA = "reducer aA s0"
  let ?mid = "dispatchAll between ?sA"
  let ?sB = "reducer aB ?mid"
  let ?seqA = "requestSequence ?sA"
  let ?seqB = "requestSequence ?sB"
  have stepB: "?seqB = Suc (requestSequence ?mid) \<and> pendingRequestId ?sB = Some ?seqB"
    using B by (rule triggered_pending)
  have "?seqA \<le> requestSequence ?mid"
    by (rule dispatchAll_sequence_mono)
  with stepB have less: "?seqA < ?seqB"
    by simp
  with stepB have stale: "?seqA \<le> requestSequence ?sB" "pendingRequestId ?sB \<noteq> Some ?seqA"
    by simp_all
  have dropR: "dispatchAll (later @ ResponseArrived ?seqA rA # rest) ?sB =
      dispatchAll (later @ rest) ?sB"
    using stale by (rule stale_arrival_dropped(1))
  have dropF: "dispatchAll (later @ RequestFailed ?seqA eA # rest) ?sB =
      dispatchAll (later @ rest) ?sB"
    using stale by (rule stale_arrival_dropped(2))
  have merged: "lastResponse
      (dispatchAll [ResponseArrived ?seqB rB, ResponseArrived ?seqA rA] ?sB) = Some rB"
    using stepB by simp
  have guard: "pendingRequestId s \<noteq> Some k \<longrightarrow>
      reducer (ResponseArrived k r) s = s \<and> reducer (RequestFailed k e) s = s"
    by simp
  show ?thesis
    using less dropR dropF merged guard by blast
qed

theorem sequence_guard_witness:
  "triggered SubmitQuery (initialEngine 5 10)
   \<and> triggered SubmitQuery (dispatchAll [SetQueryText ''tea''] (reducer SubmitQuery (initialEngine 5 10)))
   \<and> requestSequence (reducer SubmitQuery (initialEngine 5 10)) = 1
   \<and> requestSequence twoRequests = 2
   \<and> lastResponse
        (dispatchAll [ResponseArrived 2 demoResponseB, ResponseArrived 1 demoResponseA] twoRequests) =
      Some demoResponseB
   \<and> pendingRequestId (initialEngine 5 10) \<noteq> Some 1
   \<and> reducer (ResponseArrived 1 demoResponseA) (initialEngine 5 10) = initialEngine 5 10"
proof -
  have A: "triggered SubmitQuery (initialEngine 5 10)"
    by (simp add: triggered_def triggerRefetch_def)
  have B: "triggered SubmitQuery
      (dispatchAll [SetQueryText ''tea''] (reducer SubmitQuery (initialEngine 5 10)))"
    by (simp add: triggered_def triggerRefetch_def)
  have seqA: "requestSequence (reducer SubmitQuery (initialEngine 5 10)) = 1"
    by (simp add: triggerRefetch_def initialEngine_def)
  have seqB: "requestSequence twoRequests = 2"
    by (simp add: twoRequests_def triggerRefetch_def initialEngine_def)
  have idle: "pendingRequestId (initialEngine 5 10) \<noteq> Some 1"
    by (simp add: initialEngine_def)
  note guard = sequence_guard [OF A B, of "[]" demoResponseA "[]" NetworkError demoResponseB
      "initialEngine 5 10" 1 demoResponseA NetworkError, folded twoRequests_def]
  have merged: "lastResponse
      (dispatchAll [ResponseArrived 2 demoResponseB, ResponseArrived 1 demoResponseA] twoRequests) =
      Some demoResponseB"
    using guard unfolding seqA seqB by blast
  have kept: "reducer (ResponseArrived 1 demoResponseA) (initialEngine 5 10) = initialEngine 5 10"
    using guard idle by blast
  show ?thesis
    using A B seqA seqB merged idle kept by blast
qed

lemma pushRecentQuery_length: "length (pushRecentQuery cap q qs) \<le> cap"
  by (simp add: pushRecentQuery_def)

lemma pushRecentQuery_distinct:
  assumes "distinct qs"
  shows "distinct (pushRecentQuery cap q qs)"
proof -
  have "distinct (q # filter (\<lambda>x. x \<noteq> q) qs)"
    using assms by simp
  then show ?thesis
    unfolding pushRecentQuery_def by (rule distinct_take)
qed

lemma pushRecentQuery_hd:
  assumes "0 < cap"
  shows "hd (pushRecentQuery cap q qs) = q"
  using assms by (cases cap) (simp_all add: pushRecentQuery_def)

lemma reducer_recent_invariant:
  assumes "distinct (recentQueries s)"
  shows "distinct (recentQueries (reducer a s))"
  using assms
  by (cases a) (simp_all add: triggerRefetch_def pushRecentQuery_distinct split: option.split)

lemma dispatchAll_recent_invariant:
  assumes "distinct (recentQueries s)"
  shows "distinct (recentQueries (dispatchAll acts s))"
  using assms
  by (induction acts arbitrary: s) (simp_all add: reducer_recent_invariant)

lemma initialEngine_recent: "distinct (recentQueries (initialEngine cap perPage))"
  by (simp add: initialEngine_def)

text \<open>
  C3. SubmitQuery sets pageIndex to 0 and triggers a request. It puts the submitted query
  text at the head of the recent-queries list, removes every earlier entry with exactly
  that text, keeps the other entries in their order and cuts the list at the cap. So the
  list is never longer than the cap, its head is the submitted text when the cap is
  positive, and it has no duplicates if it had none before; in every state reached from a
  new engine it has none.
\<close>

theorem SubmitQuery_recent_queries:
  "pageIndex (reducer SubmitQuery s) = 0
   \<and> triggered SubmitQuery s
   \<and> recentQueries (reducer SubmitQuery s) =
       take (recentQueriesCap s) (queryText s # filter (\<lambda>q. q \<noteq> queryText s) (recentQueries s))
   \<and> length (recentQueries (reducer SubmitQuery s)) \<le> recentQueriesCap s
   \<and> (0 < recentQueriesCap s \<longrightarrow> hd (recentQueries (reducer SubmitQuery s)) = queryText s)
   \<and> (distinct (recentQueries s) \<longrightarrow> distinct (recentQueries (reducer SubmitQuery s)))
   \<and> distinct (recentQueries
        (reducer SubmitQuery (dispatchAll acts (initialEngine cap perPage))))"
proof -
  have recent: "recentQueries (reducer SubmitQuery s) =
      pushRecentQuery (recentQueriesCap s) (queryText s) (recentQueries s)"
    by (simp add: triggerRefetch_def)
  have page: "pageIndex (reducer SubmitQuery s) = 0"
    by (simp add: triggerRefetch_def)
  have trig: "triggered SubmitQuery s"
    by (simp add: triggered_def triggerRefetch_def)
  have reach: "distinct (recentQueries
      (reducer SubmitQuery (dispatchAll acts (initialEngine cap perPage))))"
    by (intro reducer_recent_invariant dispatchAll_recent_invariant initialEngine_recent)
  have formula: "recentQueries (reducer SubmitQuery s) =
      take (recentQueriesCap s) (queryText s # filter (\<lambda>q. q \<noteq> queryText s) (recentQueries s))"
    using recent by (simp add: pushRecentQuery_def)
  have bounded: "length (recentQueries (reducer SubmitQuery s)) \<le> recentQueriesCap s"
    unfolding recent by (rule pushRecentQuery_length)
  have first: "0 < recentQueriesCap s \<longrightarrow> hd (recentQueries (reducer SubmitQuery s)) = queryText s"
    unfolding recent by (simp add: pushRecentQuery_hd)
  have dedup: "distinct (recentQueries s) \<longrightarrow> distinct (recentQueries (reducer SubmitQuery s))"
    unfolding recent by (simp add: pushRecentQuery_distinct)
  show ?thesis
    using page trig formula bounded first dedup reach by blast
qed

theorem SubmitQuery_recent_queries_witness:
  "0 < recentQueriesCap recentSession
   \<and> recentQueries recentSession = [''coffee'', ''tea'']
   \<and> distinct (recentQueries recentSession)
   \<and> queryText recentSession = ''tea''
   \<and> pageIndex recentSession = 3
   \<and> pageIndex (reducer SubmitQuery recentSession) = 0
   \<and> hd (recentQueries (reducer SubmitQuery recentSession)) = ''tea''
   \<and> distinct (recentQueries (reducer SubmitQuery recentSession))
   \<and> length (recentQueries (reducer SubmitQuery recentSession)) \<le> 2"
proof -
  have cap: "recentQueriesCap recentSession = 2"
    by (simp add: recentSession_def triggerRefetch_def initialEngine_def)
  have recent: "recentQueries recentSession = [''coffee'', ''tea'']"
    by (simp add: recentSession_def triggerRefetch_def initialEngine_def pushRecentQuery_def)
  have q: "queryText recentSession = ''tea''"
    by (simp add: recentSession_def triggerRefetch_def initialEngine_def)
  have p: "pageIndex recentSession = 3"
    by (simp add: recentSession_def triggerRefetch_def initialEngine_def)
  have d: "distinct (recentQueries recentSession)"
    unfolding recent by simp
  note inst = SubmitQuery_recent_queries [of recentSession "[]" 2 10]
  show ?thesis
    using inst cap recent q p d by simp
qed

section \<open>Properties of the controllers and the components\<close>

lemma clampPage_last:
  assumes "pageIndex s = lastPageIndex s"
  shows "clampPage s (pageIndex s + 1) = pageIndex s"
  using assms by (auto simp: clampPage_def lastPageIndex_def max_def min_def)

lemma clampPage_first:
  assumes "pageIndex s = 0"
  shows "clampPage s (pageIndex s - 1) = pageIndex s"
  using assms by (auto simp: clampPage_def max_def min_def)

text \<open>
  C5. When the current page is the last page, nextPage leaves the whole engine state as
  it is, so pageIndex does not change and no transport call is made; the same holds for
  the component's goToNext, whatever its refs say. When the current page is page 0,
  previousPage and goToPrevious leave the state as it is. Without a controller the
  handlers do nothing.
\<close>

theorem pager_noop_at_bounds:
  "(pageIndex s = lastPageIndex s \<longrightarrow>
      Pager_nextPage s = s \<and> goToNext (Some s) refs = Some s)
   \<and> (pageIndex s = 0 \<longrightarrow>
      Pager_previousPage s = s \<and> goToPrevious (Some s) refs = Some s)
   \<and> goToNext None refs = None \<and> goToPrevious None refs = None"
proof -
  have nxt: "Pager_nextPage s = s \<and> goToNext (Some s) refs = Some s"
    if "pageIndex s = lastPageIndex s"
  proof -
    have "Pager_nextPage s = s"
      using clampPage_last [OF that] by (simp add: Pager_nextPage_def)
    then show ?thesis
      by (simp add: goToNext_def)
  qed
  have prv: "Pager_previousPage s = s \<and> goToPrevious (Some s) refs = Some s"
    if "pageIndex s = 0"
  proof -
    have "Pager_previousPage s = s"
      using clampPage_first [OF that] by (simp add: Pager_previousPage_def)
    then show ?thesis
      by (simp add: goToPrevious_def)
  qed
  have none: "goToNext None refs = None \<and> goToPrevious None refs = None"
    by (simp add: goToNext_def goToPrevious_def)
  show ?thesis
    using nxt prv none by blast
qed

theorem pager_noop_at_bounds_witness:
  "pageIndex lastPageSession = 2
   \<and> lastPageIndex lastPageSession = 2
   \<and> Pager_nextPage lastPageSession = lastPageSession
   \<and> goToNext (Some lastPageSession) staleRefs = Some lastPageSession
   \<and> pageIndex (initialEngine 5 10) = 0
   \<and> Pager_previousPage (initialEngine 5 10) = initialEngine 5 10
   \<and> goToPrevious (Some (initialEngine 5 10)) staleRefs = Some (initialEngine 5 10)"
proof -
  have p: "pageIndex lastPageSession = 2"
    by (simp add: lastPageSession_def triggerRefetch_def initialEngine_def)
  have l: "lastPageIndex lastPageSession = 2"
    by (simp add: lastPageSession_def triggerRefetch_def initialEngine_def lastPageIndex_def
        pageCount_def demoResponseA_def)
  have z: "pageIndex (initialEngine 5 10) = 0"
    by (simp add: initialEngine_def)
  show ?thesis
    using p l z pager_noop_at_bounds [of lastPageSession staleRefs]
      pager_noop_at_bounds [of "initialEngine 5 10" staleRefs]
    by simp
qed

text \<open>
  C7. With a correction pending, applyCorrection sets the query text to the correction's
  text and triggers one request, with the next sequence number and the corrected text.
  With no correction pending it leaves the state as it is, once or twice in a row, and
  raises nothing. The component's handler does the same through its controller and does
  nothing without one.
\<close>

theorem applyCorrection_pending_or_noop:
  "(pendingCorrection s = Some c \<longrightarrow>
      queryText (DidYouMean_applyCorrection s) = correctedQuery c
      \<and> triggered ApplyCorrection s
      \<and> pendingRequestId (DidYouMean_applyCorrection s) = Some (Suc (requestSequence s))
      \<and> transportCalls (DidYouMean_applyCorrection s) =
          transportCalls s @
            [\<lparr> reqSequence = Suc (requestSequence s), reqQueryText = correctedQuery c,
               reqSelectedFacets = selectedFacets s, reqSortCriterion = sortCriterion s,
               reqPageIndex = pageIndex s, reqPageSize = pageSize s \<rparr>]
      \<and> applyCorrection (Some s) = Some (DidYouMean_applyCorrection s))
   \<and> (pendingCorrection s = None \<longrightarrow>
      DidYouMean_applyCorrection s = s
      \<and> DidYouMean_applyCorrection (DidYouMean_applyCorrection s) = s
      \<and> applyCorrection (Some s) = Some s)
   \<and> applyCorrection None = None"
  by (simp add: DidYouMean_applyCorrection_def applyCorrection_def triggered_def
      triggerRefetch_def)

theorem applyCorrection_pending_or_noop_witness:
  "pendingCorrection correctionSession =
     Some \<lparr> correctedQuery = ''coffee'', wasAutomaticallyApplied = False,
            originalQuery = ''cofee'' \<rparr>
   \<and> queryText correctionSession = ''cofee''
   \<and> requestSequence correctionSession = 1
   \<and> queryText (DidYouMean_applyCorrection correctionSession) = ''coffee''
   \<and> pendingRequestId (DidYouMean_applyCorrection correctionSession) = Some 2
   \<and> pendingCorrection (initialEngine 5 10) = None
   \<and> DidYouMean_applyCorrection (initialEngine 5 10) = initialEngine 5 10"
proof -
  have c: "pendingCorrection correctionSession =
      Some \<lparr> correctedQuery = ''coffee'', wasAutomaticallyApplied = False,
             originalQuery = ''cofee'' \<rparr>"
    by (simp add: correctionSession_def triggerRefetch_def initialEngine_def
        pendingCorrection_def demoResponseA_def)
  have q: "queryText correctionSession = ''cofee''"
    by (simp add: correctionSession_def triggerRefetch_def initialEngine_def)
  have n: "requestSequence correctionSession = 1"
    by (simp add: correctionSession_def triggerRefetch_def initialEngine_def)
  have none: "pendingCorrection (initialEngine 5 10) = None"
    by (simp add: initialEngine_def pendingCorrection_def)
  show ?thesis
    using c q n none
      applyCorrection_pending_or_noop [of correctionSession
        "\<lparr> correctedQuery = ''coffee'', wasAutomaticallyApplied = False,
           originalQuery = ''cofee'' \<rparr>"]
      applyCorrection_pending_or_noop [of "initialEngine 5 10"]
    by simp
qed

text \<open>
  C8. The handler searchOriginal is a stub: in every state, with or without a controller,
  it returns the engine state unchanged, so no field of the canonical state changes and
  no request is triggered.
\<close>

theorem searchOriginal_changes_nothing: "searchOriginal didYouMean = didYouMean"
  by (simp add: searchOriginal_def split: option.split)









section \<open>Properties of the result card\<close>

text \<open>
  C6, at the failing input. A click on the title link of a result, which is the click
  that opens it, is stopped at the link and never reaches the card's handler: nothing is
  dispatched to the engine. A click elsewhere on the card dispatches exactly one
  document-open action carrying the result.
\<close>

theorem title_link_click_not_tracked:
  "dispatched (ResultList_click (Some demoEngine) TitleLink demoResult emptyClient) = []
   \<and> dispatched (ResultList_click (Some demoEngine) CardBody demoResult emptyClient) =
       [LogDocumentOpen demoResult]"
  by (simp add: ResultList_click_def ResultItem_click_def handleClick_def trackClick_def
      logDocumentClick_def emptyClient_def)

text \<open>
  C10. For every result, formattedDate reads a raw date d greater than 10^12 as a number
  of milliseconds, and any other non-zero d as a number of seconds, multiplied by 1000;
  it yields null when the raw date is absent or 0.
\<close>

theorem formattedDate_timestamp:
  "(10 ^ 12 < d \<longrightarrow>
      formattedDate fmt (result\<lparr>raw := (raw result)\<lparr>date := Some d\<rparr>\<rparr>) = Some (fmt d))
   \<and> (d \<le> 10 ^ 12 \<and> d \<noteq> 0 \<longrightarrow>
      formattedDate fmt (result\<lparr>raw := (raw result)\<lparr>date := Some d\<rparr>\<rparr>) = Some (fmt (d * 1000)))
   \<and> formattedDate fmt (result\<lparr>raw := (raw result)\<lparr>date := None\<rparr>\<rparr>) = None
   \<and> formattedDate fmt (result\<lparr>raw := (raw result)\<lparr>date := Some 0\<rparr>\<rparr>) = None"
  by (simp add: formattedDate_def)

theorem formattedDate_timestamp_witness:
  "(10::int) ^ 12 < 1700000000000
   \<and> formattedDate demoDateFormat (demoResult\<lparr>raw := (raw demoResult)\<lparr>date := Some 1700000000000\<rparr>\<rparr>)
       = Some ''Nov 14, 2023''
   \<and> (1700000000::int) \<le> 10 ^ 12 \<and> (1700000000::int) \<noteq> 0
   \<and> formattedDate demoDateFormat (demoResult\<lparr>raw := (raw demoResult)\<lparr>date := Some 1700000000\<rparr>\<rparr>)
       = Some ''Nov 14, 2023''"
proof -
  have ms: "(10::int) ^ 12 < 1700000000000" by simp
  have s: "(1700000000::int) \<le> 10 ^ 12 \<and> (1700000000::int) \<noteq> 0" by simp
  have f1: "demoDateFormat 1700000000000 = ''Nov 14, 2023''"
    by (simp add: demoDateFormat_def)
  have f2: "demoDateFormat (1700000000 * 1000) = ''Nov 14, 2023''"
    by (simp add: demoDateFormat_def)
  have a: "formattedDate demoDateFormat
      (demoResult\<lparr>raw := (raw demoResult)\<lparr>date := Some 1700000000000\<rparr>\<rparr>) = Some ''Nov 14, 2023''"
    using formattedDate_timestamp [of 1700000000000 demoDateFormat demoResult] ms
    unfolding f1 by blast
  have b: "formattedDate demoDateFormat
      (demoResult\<lparr>raw := (raw demoResult)\<lparr>date := Some 1700000000\<rparr>\<rparr>) = Some ''Nov 14, 2023''"
    using formattedDate_timestamp [of 1700000000 demoDateFormat demoResult] s
    unfolding f2 by blast
  show ?thesis
    using ms s a b by blast
qed

end
